theory Spec2Isabelle
  imports Complex_Main
begin

section \<open>JavaScript values\<close>

text \<open>
  The records handled by \<^verbatim>\<open>src/lib/index.ts\<close> are plain JavaScript values: the fixtures
  \<^verbatim>\<open>localResults\<close> and \<^verbatim>\<open>localResult\<close>, the argument \<^verbatim>\<open>scr\<close> of \<^verbatim>\<open>postContent\<close>
  and \<^verbatim>\<open>putContent\<close>, and whatever \<^verbatim>\<open>JSON.parse\<close> and \<^verbatim>\<open>response.json()\<close> return.
  An object is an association list in property order; a property that is missing reads
  as \<^verbatim>\<open>undefined\<close>, as in JavaScript. Strings are lists of code units. Numbers are the
  real numbers their literals denote; \<^verbatim>\<open>NaN\<close> and the infinities are not represented.
\<close>

datatype jsval =
    JUndefined
  | JNull
  | JBool bool
  | JNum real
  | JStr string
  | JArr "jsval list"
  | JObj "(string \<times> jsval) list"

text \<open>Property access \<^verbatim>\<open>data[key]\<close> on the property list of an object.\<close>

definition js_get :: "(string \<times> jsval) list \<Rightarrow> string \<Rightarrow> jsval" where
  "js_get kvs k = (case map_of kvs k of None \<Rightarrow> JUndefined | Some v \<Rightarrow> v)"

text \<open>Property access \<^verbatim>\<open>v.key\<close> on a value; a value without properties reads \<^verbatim>\<open>undefined\<close>.\<close>

definition js_prop :: "jsval \<Rightarrow> string \<Rightarrow> jsval" where
  "js_prop v k = (case v of JObj kvs \<Rightarrow> js_get kvs k | _ \<Rightarrow> JUndefined)"

section \<open>The schemas\<close>

text \<open>
  The schemas are built with the zod combinators \<^verbatim>\<open>z.string()\<close>, \<^verbatim>\<open>z.string().url()\<close>,
  \<^verbatim>\<open>z.number()\<close>, \<^verbatim>\<open>z.array(s)\<close>, \<^verbatim>\<open>z.object({...})\<close> and \<^verbatim>\<open>s.optional()\<close>. The
  library is a dependency of the repository; the combinators are given their documented
  meaning: an object schema checks every key of its shape against the property of that
  name and drops the properties it does not know, an array schema checks every element
  and has no length bound unless one is asked for, an optional schema accepts
  \<^verbatim>\<open>undefined\<close>, and all issues are collected. Whether a string is a URL is decided by
  the platform's URL parser, a parameter \<open>is_url\<close> of the model.
\<close>

datatype zschema =
    ZString
  | ZUrl
  | ZNumber
  | ZArray zschema
  | ZObject "(string \<times> zschema) list"
  | ZOptional zschema

datatype pkey = Key string | Idx nat

datatype zod_issue =
    Invalid_type "pkey list"
  | Invalid_url "pkey list"

fun zod_issues :: "(string \<Rightarrow> bool) \<Rightarrow> zschema \<Rightarrow> pkey list \<Rightarrow> jsval \<Rightarrow> zod_issue list" where
  "zod_issues u ZString p v = (case v of JStr s \<Rightarrow> [] | _ \<Rightarrow> [Invalid_type p])"
| "zod_issues u ZUrl p v =
     (case v of JStr s \<Rightarrow> (if u s then [] else [Invalid_url p]) | _ \<Rightarrow> [Invalid_type p])"
| "zod_issues u ZNumber p v = (case v of JNum x \<Rightarrow> [] | _ \<Rightarrow> [Invalid_type p])"
| "zod_issues u (ZArray s) p v =
     (case v of
        JArr xs \<Rightarrow> concat (map (\<lambda>ix. zod_issues u s (p @ [Idx (fst ix)]) (snd ix)) (enumerate 0 xs))
      | _ \<Rightarrow> [Invalid_type p])"
| "zod_issues u (ZObject shape) p v =
     (case v of
        JObj kvs \<Rightarrow> concat (map (\<lambda>ks. zod_issues u (snd ks) (p @ [Key (fst ks)]) (js_get kvs (fst ks))) shape)
      | _ \<Rightarrow> [Invalid_type p])"
| "zod_issues u (ZOptional s) p v =
     (case v of JUndefined \<Rightarrow> [] | _ \<Rightarrow> zod_issues u s p v)"

text \<open>The value a successful parse returns: unknown properties are stripped.\<close>

fun zod_output :: "zschema \<Rightarrow> jsval \<Rightarrow> jsval" where
  "zod_output (ZArray s) v = (case v of JArr xs \<Rightarrow> JArr (map (zod_output s) xs) | _ \<Rightarrow> v)"
| "zod_output (ZObject shape) v =
     (case v of
        JObj kvs \<Rightarrow>
          JObj (filter (\<lambda>kv. snd kv \<noteq> JUndefined)
                  (map (\<lambda>ks. (fst ks, zod_output (snd ks) (js_get kvs (fst ks)))) shape))
      | _ \<Rightarrow> v)"
| "zod_output (ZOptional s) v = (case v of JUndefined \<Rightarrow> JUndefined | _ \<Rightarrow> zod_output s v)"
| "zod_output s v = v"

text \<open>\<^verbatim>\<open>schema.parse(v)\<close>: the stripped value, or the exception \<^verbatim>\<open>ZodError\<close> with its issues.\<close>

definition zod_parse :: "(string \<Rightarrow> bool) \<Rightarrow> zschema \<Rightarrow> jsval \<Rightarrow> zod_issue list + jsval" where
  "zod_parse u s v =
     (case zod_issues u s [] v of [] \<Rightarrow> Inr (zod_output s v) | i # is \<Rightarrow> Inl (i # is))"

definition positionSchema :: zschema where
  "positionSchema = ZObject [(''lon'', ZNumber), (''lat'', ZNumber), (''h'', ZNumber)]"

definition quaternionSchema :: zschema where
  "quaternionSchema = ZObject [(''x'', ZNumber), (''y'', ZNumber), (''z'', ZNumber), (''w'', ZNumber)]"

definition geoPoseSchema :: zschema where
  "geoPoseSchema = ZObject [(''position'', positionSchema), (''quaternion'', quaternionSchema)]"

definition refSchema :: zschema where
  "refSchema = ZObject [(''contentType'', ZString), (''url'', ZUrl)]"

definition defSchema :: zschema where
  "defSchema = ZObject [(''type'', ZString), (''value'', ZString)]"

definition contentSchema :: zschema where
  "contentSchema = ZObject
     [(''id'', ZString),
      (''type'', ZString),
      (''title'', ZString),
      (''description'', ZOptional ZString),
      (''keywords'', ZOptional (ZArray ZString)),
      (''placekey'', ZOptional ZString),
      (''refs'', ZOptional (ZArray refSchema)),
      (''geopose'', geoPoseSchema),
      (''size'', ZOptional ZNumber),
      (''bbox'', ZOptional ZString),
      (''definitions'', ZOptional (ZArray defSchema))]"

definition scrNoIdShape :: "(string \<times> zschema) list" where
  "scrNoIdShape =
     [(''type'', ZString),
      (''content'', contentSchema),
      (''tenant'', ZOptional ZString),
      (''timestamp'', ZOptional ZNumber)]"

definition scrNoIdSchema :: zschema where
  "scrNoIdSchema = ZObject scrNoIdShape"

text \<open>\<^verbatim>\<open>scrNoIdSchema.extend({ id: z.string() })\<close>: the shape with the new key added.\<close>

definition scrSchema :: zschema where
  "scrSchema = ZObject (scrNoIdShape @ [(''id'', ZString)])"

section \<open>Requests, responses and failures\<close>

text \<open>
  The exceptions and rejections the module can end in: \<^verbatim>\<open>new Error(msg)\<close> thrown by the
  module itself (parameter checks and failed requests), the \<^verbatim>\<open>SyntaxError\<close> of
  \<^verbatim>\<open>JSON.parse\<close>, the \<^verbatim>\<open>ZodError\<close> of \<^verbatim>\<open>schema.parse\<close>, the \<^verbatim>\<open>TypeError\<close> of
  \<^verbatim>\<open>headers.append\<close> (it carries the value that was refused; its message is the
  engine's), a rejection of \<^verbatim>\<open>fetch\<close> itself, and the string \<^verbatim>\<open>getFileContent\<close> rejects
  with.
\<close>

datatype js_error =
    Error string
  | SyntaxError string
  | ZodError "zod_issue list"
  | TypeError string
  | FetchError string
  | Rejected string

text \<open>The two arguments of \<^verbatim>\<open>fetch(url, options)\<close>; the headers in the order appended.\<close>

record http_request =
  req_url :: string
  req_method :: string
  req_headers :: "(string \<times> string) list"
  req_body :: "string option"

record http_response =
  ok :: bool
  statusText :: string
  body_text :: string

text \<open>
  What the module takes from its platform: \<^verbatim>\<open>fetch\<close> (\<open>Inl\<close> when the call itself fails),
  \<^verbatim>\<open>JSON.parse\<close> (\<open>Inl\<close> the message of its \<^verbatim>\<open>SyntaxError\<close>), \<^verbatim>\<open>JSON.stringify\<close>, and
  the URL parser behind \<^verbatim>\<open>z.string().url()\<close>.
\<close>

record platform =
  fetch :: "http_request \<Rightarrow> string + http_response"
  JSON_parse :: "string \<Rightarrow> string + jsval"
  JSON_stringify :: "jsval \<Rightarrow> string"
  is_url :: "string \<Rightarrow> bool"

text \<open>A \<^verbatim>\<open>File\<close>: its name, and the text \<^verbatim>\<open>FileReader\<close> loads or the error it reports.\<close>

record js_file =
  file_name :: string
  file_content :: "string + string"

text \<open>
  The outcome of an asynchronous function: the requests handed to \<^verbatim>\<open>fetch\<close>, in order,
  and the value the promise resolves to or the error it rejects with.
\<close>

type_synonym 'a outcome = "http_request list \<times> (js_error + 'a)"

definition and_then :: "'a outcome \<Rightarrow> ('a \<Rightarrow> js_error + 'b) \<Rightarrow> 'b outcome" where
  "and_then m f = (case m of (t, Inl e) \<Rightarrow> (t, Inl e) | (t, Inr x) \<Rightarrow> (t, f x))"

definition GET_METHOD :: string where "GET_METHOD = ''get''"
definition POST_METHOD :: string where "POST_METHOD = ''post''"
definition PUT_METHOD :: string where "PUT_METHOD = ''put''"
definition DELETE_METHOD :: string where "DELETE_METHOD = ''delete''"

definition scrsPath :: string where "scrsPath = ''scrs''"

text \<open>
  \<^verbatim>\<open>headers.append(name, value)\<close> on a \<^verbatim>\<open>Headers\<close> object, as the Fetch standard defines
  it: the value is normalised, that is leading and trailing HTTP whitespace (line feed,
  carriage return, tab, space) is removed; a normalised value that contains a NUL, a
  line feed or a carriage return is refused with a \<^verbatim>\<open>TypeError\<close>; otherwise the pair is
  added after the pairs already there. Strings are byte strings here, so the conversion
  of the value to a byte string does not fail; the three names the module appends are
  lower-case header names, so the check of the name does not fail either.
\<close>

definition http_whitespace :: "char \<Rightarrow> bool" where
  "http_whitespace c = (c = CHR 0x0A \<or> c = CHR 0x0D \<or> c = CHR 0x09 \<or> c = CHR 0x20)"

definition normalize_value :: "string \<Rightarrow> string" where
  "normalize_value v = rev (dropWhile http_whitespace (rev (dropWhile http_whitespace v)))"

definition is_header_value :: "string \<Rightarrow> bool" where
  "is_header_value v = (CHR 0x00 \<notin> set v \<and> CHR 0x0A \<notin> set v \<and> CHR 0x0D \<notin> set v)"

definition Headers_append ::
  "(string \<times> string) list \<Rightarrow> string \<Rightarrow> string \<Rightarrow> js_error + (string \<times> string) list" where
  "Headers_append headers name value =
     (let v = normalize_value value
      in if is_header_value v then Inr (headers @ [(name, v)]) else Inl (TypeError v))"

text \<open>The condition \<^verbatim>\<open>if (token)\<close> on a \<^verbatim>\<open>string | undefined\<close>.\<close>

definition truthy :: "string option \<Rightarrow> bool" where
  "truthy token = (case token of None \<Rightarrow> False | Some t \<Rightarrow> t \<noteq> [])"

text \<open>
  \<^verbatim>\<open>request\<close> in three steps. First the headers: \<^verbatim>\<open>new Headers()\<close> and the two or three
  calls of \<^verbatim>\<open>append\<close>, any of which may throw.
\<close>

definition request_headers :: "string option \<Rightarrow> js_error + (string \<times> string) list" where
  "request_headers token =
     (case Headers_append [] ''accept'' ''application/vnd.oscp+json; version=1.0;'' of
        Inl e \<Rightarrow> Inl e
      | Inr h1 \<Rightarrow>
          (case Headers_append h1 ''content-type'' ''application/json'' of
             Inl e \<Rightarrow> Inl e
           | Inr h2 \<Rightarrow>
               if truthy token
               then Headers_append h2 ''authorization'' (''Bearer '' @ the token)
               else Inr h2))"

text \<open>
  Then the \<^verbatim>\<open>options\<close> object. The parameters \<^verbatim>\<open>method\<close> and \<^verbatim>\<open>body\<close> may be left out
  (\<open>None\<close>) and then take their defaults.
\<close>

definition request_options ::
  "string \<Rightarrow> string option \<Rightarrow> string option \<Rightarrow> (string \<times> string) list \<Rightarrow> http_request" where
  "request_options url method body headers =
     (let m = (case method of None \<Rightarrow> GET_METHOD | Some m \<Rightarrow> m);
          b = (case body of None \<Rightarrow> [] | Some b \<Rightarrow> b)
      in \<lparr> req_url = url, req_method = m, req_headers = headers,
           req_body = (if m = POST_METHOD \<or> m = PUT_METHOD then Some b else None) \<rparr>)"

text \<open>
  Then the one call of \<^verbatim>\<open>fetch\<close>; a response that is not \<^verbatim>\<open>ok\<close> is thrown. When
  \<^verbatim>\<open>append\<close> throws, \<^verbatim>\<open>fetch\<close> is not called.
\<close>

definition request ::
  "platform \<Rightarrow> string \<Rightarrow> string option \<Rightarrow> string option \<Rightarrow> string option \<Rightarrow> http_response outcome" where
  "request P url method body token =
     (case request_headers token of
        Inl e \<Rightarrow> ([], Inl e)
      | Inr headers \<Rightarrow>
          (let options = request_options url method body headers
           in case fetch P options of
                Inl msg \<Rightarrow> ([options], Inl (FetchError msg))
              | Inr response \<Rightarrow>
                  if \<not> ok response
                  then ([options], Inl (Error (body_text response @ '', '' @ statusText response)))
                  else ([options], Inr response)))"

text \<open>\<^verbatim>\<open>response.json()\<close> and \<^verbatim>\<open>response.text()\<close>.\<close>

definition response_json :: "platform \<Rightarrow> http_response \<Rightarrow> js_error + jsval" where
  "response_json P response =
     (case JSON_parse P (body_text response) of Inl msg \<Rightarrow> Inl (SyntaxError msg) | Inr v \<Rightarrow> Inr v)"

definition response_text :: "http_response \<Rightarrow> js_error + string" where
  "response_text response = Inr (body_text response)"

section \<open>The fixtures\<close>

definition localResults :: jsval where
  "localResults = JArr
     [JObj
        [(''id'', JStr ''a3683f12b334dea6''),
         (''type'', JStr ''scr''),
         (''content'', JObj
            [(''id'', JStr ''111''),
             (''type'', JStr ''3d''),
             (''title'', JStr ''cat model''),
             (''keywords'', JArr [JStr ''cat'']),
             (''url'', JStr ''https://www.example.com/cat.glb''),
             (''geopose'', JObj
                [(''position'', JObj
                    [(''lon'', JNum (- 97.7288818359375)),
                     (''lat'', JNum 30.286160447473897),
                     (''h'', JNum 78.34)]),
                 (''quaternion'', JObj
                    [(''x'', JNum 0.5), (''y'', JNum 0.5), (''z'', JNum 0.5), (''w'', JNum 0.5)])]),
             (''size'', JNum 100)]),
         (''tenant'', JStr ''oscptest''),
         (''timestamp'', JNum 202009)],
      JObj
        [(''id'', JStr ''d44a6818c119b51e''),
         (''type'', JStr ''scr''),
         (''content'', JObj
            [(''id'', JStr ''222''),
             (''type'', JStr ''3d''),
             (''title'', JStr ''dog model''),
             (''url'', JStr ''https://www.example.com/dog.glb''),
             (''geopose'', JObj
                [(''position'', JObj
                    [(''lon'', JNum (- 97.7358341217041)),
                     (''lat'', JNum 30.28567869039136),
                     (''h'', JNum 78.34)]),
                 (''quaternion'', JObj
                    [(''x'', JNum 0.5), (''y'', JNum 0.5), (''z'', JNum 0.5), (''w'', JNum 0.5)])]),
             (''size'', JNum 100)]),
         (''tenant'', JStr ''oscptest''),
         (''timestamp'', JNum 20200924)]]"

definition localResult :: jsval where
  "localResult = JObj
     [(''id'', JStr ''a3683f12b334dea6''),
      (''type'', JStr ''scr''),
      (''content'', JObj
         [(''id'', JStr ''111''),
          (''type'', JStr ''3d''),
          (''title'', JStr ''cat model''),
          (''keywords'', JArr [JStr ''cat'']),
          (''url'', JStr ''https://www.example.com/cat.glb''),
          (''geopose'', JObj
             [(''position'', JObj
                 [(''lon'', JNum (- 97.7288818359375)),
                  (''lat'', JNum 30.286160447473897),
                  (''h'', JNum 78.34)]),
              (''quaternion'', JObj
                 [(''x'', JNum 0.5), (''y'', JNum 0.5), (''z'', JNum 0.5), (''w'', JNum 0.5)])]),
          (''size'', JNum 100)]),
      (''tenant'', JStr ''oscptest''),
      (''timestamp'', JNum 20200924)]"

section \<open>The operations\<close>

text \<open>
  Every exported function runs in the state of the module, the variable \<^verbatim>\<open>local\<close>, passed
  as the argument \<open>local\<close>. Arguments typed \<^verbatim>\<open>string\<close> are strings, so the tests
  \<^verbatim>\<open>=== undefined\<close> on them never hold; the parameter \<^verbatim>\<open>id\<close> is written \<open>id'\<close>. The
  parameter \<^verbatim>\<open>keywords\<close> has the default \<^verbatim>\<open>''\<close> and may be left out (\<open>None\<close>). The
  functions \<^verbatim>\<open>searchContentsForTenant\<close> and \<^verbatim>\<open>deleteWithId\<close> do not read \<^verbatim>\<open>local\<close>.
\<close>

definition getContentsAtLocation ::
  "platform \<Rightarrow> bool \<Rightarrow> string \<Rightarrow> string \<Rightarrow> string \<Rightarrow> string option \<Rightarrow> jsval outcome" where
  "getContentsAtLocation P local url topic h3Index keywords_arg =
     (let keywords = (case keywords_arg of None \<Rightarrow> [] | Some k \<Rightarrow> k)
      in if local then ([], Inr localResults)
         else if topic = [] \<or> h3Index = []
         then ([], Inl (Error (''Check parameters: '' @ topic @ '' '' @ h3Index)))
         else
           (let keywordsQuery = (if keywords = [] then [] else ''&keywords='' @ keywords)
            in and_then
                 (request P (url @ ''/'' @ scrsPath @ ''/'' @ topic @ ''?h3Index='' @ h3Index @ keywordsQuery)
                    None None None)
                 (response_json P)))"

definition getContentAtLocation ::
  "platform \<Rightarrow> bool \<Rightarrow> string \<Rightarrow> string \<Rightarrow> string \<Rightarrow> string option \<Rightarrow> jsval outcome" where
  "getContentAtLocation P local url topic h3Index keywords_arg =
     (let keywords = (case keywords_arg of None \<Rightarrow> [] | Some k \<Rightarrow> k)
      in getContentsAtLocation P local url topic h3Index (Some keywords))"

definition getContentWithId ::
  "platform \<Rightarrow> bool \<Rightarrow> string \<Rightarrow> string \<Rightarrow> string \<Rightarrow> jsval outcome" where
  "getContentWithId P local url topic id' =
     (if local then ([], Inr localResult)
      else if length id' < 16
      then ([], Inl (Error (''Check parameters: '' @ id')))
      else and_then
             (request P (url @ ''/'' @ scrsPath @ ''/'' @ topic @ ''/'' @ id') None None None)
             (response_json P))"

definition searchContentsForTenant ::
  "platform \<Rightarrow> bool \<Rightarrow> string \<Rightarrow> string \<Rightarrow> string \<Rightarrow> jsval outcome" where
  "searchContentsForTenant P local url topic token =
     and_then
       (request P (url @ ''/tenant/'' @ scrsPath @ ''/'' @ topic) (Some GET_METHOD) (Some []) (Some token))
       (response_json P)"

definition postContent ::
  "platform \<Rightarrow> bool \<Rightarrow> string \<Rightarrow> string \<Rightarrow> jsval \<Rightarrow> string \<Rightarrow> string outcome" where
  "postContent P local url topic scr token =
     (if local then ([], Inr ''OK'')
      else if length token = 0
      then ([], Inl (Error (''Check parameter: '' @ token)))
      else case zod_parse (is_url P) scrNoIdSchema scr of
             Inl issues \<Rightarrow> ([], Inl (ZodError issues))
           | Inr parsed \<Rightarrow>
               and_then
                 (request P (url @ ''/'' @ scrsPath @ ''/'' @ topic)
                    (Some POST_METHOD) (Some (JSON_stringify P scr)) (Some token))
                 response_text)"

definition getFileContent :: "js_file \<Rightarrow> string + string" where
  "getFileContent f =
     (case file_content f of
        Inl reader_error \<Rightarrow> Inl (''Unable to get Content of '' @ file_name f @ '': '' @ reader_error)
      | Inr result \<Rightarrow> Inr result)"

definition postScrFile ::
  "platform \<Rightarrow> bool \<Rightarrow> string \<Rightarrow> string \<Rightarrow> js_file \<Rightarrow> string \<Rightarrow> string outcome" where
  "postScrFile P local url topic f token =
     (case getFileContent f of
        Inl msg \<Rightarrow> ([], Inl (Rejected msg))
      | Inr result \<Rightarrow>
          (case JSON_parse P result of
             Inl msg \<Rightarrow> ([], Inl (SyntaxError msg))
           | Inr parsedResult \<Rightarrow>
               (case zod_parse (is_url P) scrNoIdSchema parsedResult of
                  Inl issues \<Rightarrow> ([], Inl (ZodError issues))
                | Inr scrNoId \<Rightarrow> postContent P local url topic scrNoId token)))"

definition putContent ::
  "platform \<Rightarrow> bool \<Rightarrow> string \<Rightarrow> string \<Rightarrow> jsval \<Rightarrow> string \<Rightarrow> string \<Rightarrow> string outcome" where
  "putContent P local url topic scr id' token =
     (if local then ([], Inr ''OK'')
      else if length id' = 0 \<or> length token = 0
      then ([], Inl (Error (''Check parameters: '' @ id' @ '', '' @ token)))
      else case zod_parse (is_url P) scrSchema scr of
             Inl issues \<Rightarrow> ([], Inl (ZodError issues))
           | Inr parsed \<Rightarrow>
               and_then
                 (request P (url @ ''/'' @ scrsPath @ ''/'' @ topic @ ''/'' @ id')
                    (Some PUT_METHOD) (Some (JSON_stringify P scr)) (Some token))
                 response_text)"

definition deleteWithId ::
  "platform \<Rightarrow> bool \<Rightarrow> string \<Rightarrow> string \<Rightarrow> string \<Rightarrow> string \<Rightarrow> string outcome" where
  "deleteWithId P local url topic id' token =
     and_then
       (request P (url @ ''/'' @ scrsPath @ ''/'' @ topic @ ''/'' @ id')
          (Some DELETE_METHOD) (Some []) (Some token))
       response_text"

section \<open>Sample data\<close>

text \<open>
  A platform for the worked examples below. Its server answers every request with
  \<^verbatim>\<open>200 OK\<close> and the body \<^verbatim>\<open>[]\<close>. \<^verbatim>\<open>JSON.parse\<close>, \<^verbatim>\<open>JSON.stringify\<close> and the URL
  parser are tabulated on the texts and values the examples use; outside the table they
  return a default that no example reads. The first text is the JSON text of the
  fixture \<^verbatim>\<open>localResult\<close>.
\<close>

definition localResult_text :: string where
  \<open>localResult_text =
     ''{"id":"a3683f12b334dea6","type":"scr","content":{"id":"111","type":"3d","title":"cat model","keywords":["cat"],"url":"https://www.example.com/cat.glb","geopose":{"position":{"lon":-97.7288818359375,"lat":30.286160447473897,"h":78.34},"quaternion":{"x":0.5,"y":0.5,"z":0.5,"w":0.5}},"size":100},"tenant":"oscptest","timestamp":20200924}''\<close>

text \<open>\<^verbatim>\<open>localResult\<close> without the properties \<^verbatim>\<open>scrNoIdSchema\<close> does not know, and its text.\<close>

definition localResult_stripped :: jsval where
  "localResult_stripped = JObj
     [(''type'', JStr ''scr''),
      (''content'', JObj
         [(''id'', JStr ''111''),
          (''type'', JStr ''3d''),
          (''title'', JStr ''cat model''),
          (''keywords'', JArr [JStr ''cat'']),
          (''geopose'', JObj
             [(''position'', JObj
                 [(''lon'', JNum (- 97.7288818359375)),
                  (''lat'', JNum 30.286160447473897),
                  (''h'', JNum 78.34)]),
              (''quaternion'', JObj
                 [(''x'', JNum 0.5), (''y'', JNum 0.5), (''z'', JNum 0.5), (''w'', JNum 0.5)])]),
          (''size'', JNum 100)]),
      (''tenant'', JStr ''oscptest''),
      (''timestamp'', JNum 20200924)]"

definition localResult_stripped_text :: string where
  \<open>localResult_stripped_text =
     ''{"type":"scr","content":{"id":"111","type":"3d","title":"cat model","keywords":["cat"],"geopose":{"position":{"lon":-97.7288818359375,"lat":30.286160447473897,"h":78.34},"quaternion":{"x":0.5,"y":0.5,"z":0.5,"w":0.5}},"size":100},"tenant":"oscptest","timestamp":20200924}''\<close>

definition sample_JSON_parse :: "string \<Rightarrow> string + jsval" where
  "sample_JSON_parse text =
     (if text = ''[]'' then Inr (JArr [])
      else if text = ''{}'' then Inr (JObj [])
      else if text = localResult_text then Inr localResult
      else Inl ''Unexpected end of JSON input'')"

definition sample_JSON_stringify :: "jsval \<Rightarrow> string" where
  "sample_JSON_stringify v =
     (if v = localResult then localResult_text
      else if v = localResult_stripped then localResult_stripped_text
      else ''null'')"

definition sample_is_url :: "string \<Rightarrow> bool" where
  "sample_is_url s = (s = ''https://www.example.com/cat.glb'' \<or> s = ''https://www.example.com/dog.glb'')"

definition sample_platform :: platform where
  "sample_platform =
     \<lparr> fetch = (\<lambda>r. Inr \<lparr> ok = True, statusText = ''OK'', body_text = ''[]'' \<rparr>),
       JSON_parse = sample_JSON_parse,
       JSON_stringify = sample_JSON_stringify,
       is_url = sample_is_url \<rparr>"

text \<open>
  Two candidate records for the examples on \<^verbatim>\<open>refs\<close>: one whose \<^verbatim>\<open>refs\<close> is the empty
  array, and one with a single reference.
\<close>

definition scr_empty_refs :: jsval where
  "scr_empty_refs = JObj
     [(''id'', JStr ''a3683f12b334dea6''),
      (''type'', JStr ''scr''),
      (''content'', JObj
         [(''id'', JStr ''x''),
          (''type'', JStr ''3d''),
          (''title'', JStr ''t''),
          (''refs'', JArr []),
          (''geopose'', JObj
             [(''position'', JObj [(''lon'', JNum 0), (''lat'', JNum 0), (''h'', JNum 0)]),
              (''quaternion'', JObj
                 [(''x'', JNum 0), (''y'', JNum 0), (''z'', JNum 0), (''w'', JNum 1)])])])]"

definition scr_with_ref :: jsval where
  "scr_with_ref = JObj
     [(''type'', JStr ''scr''),
      (''content'', JObj
         [(''id'', JStr ''x''),
          (''type'', JStr ''3d''),
          (''title'', JStr ''t''),
          (''refs'', JArr
             [JObj [(''contentType'', JStr ''model/gltf-binary''),
                    (''url'', JStr ''https://www.example.com/cat.glb'')]]),
          (''geopose'', JObj
             [(''position'', JObj [(''lon'', JNum 0), (''lat'', JNum 0), (''h'', JNum 0)]),
              (''quaternion'', JObj
                 [(''x'', JNum 0), (''y'', JNum 0), (''z'', JNum 0), (''w'', JNum 1)])])])]"

section \<open>The requests an operation issues\<close>

text \<open>
  \<^verbatim>\<open>request\<close> calls \<^verbatim>\<open>fetch\<close> once when the headers could be built and not at all when
  \<^verbatim>\<open>headers.append\<close> threw, and reading the response calls it no more; so each operation
  issues either no request or the single request below. The two values the module
  appends for accept and content-type are accepted as they are.
\<close>

lemma fst_and_then: "fst (and_then m f) = fst m"
  by (simp add: and_then_def split: prod.splits sum.splits)

lemma append_accept:
  "Headers_append [] ''accept'' ''application/vnd.oscp+json; version=1.0;''
     = Inr [(''accept'', ''application/vnd.oscp+json; version=1.0;'')]"
  by (simp add: Headers_append_def normalize_value_def is_header_value_def http_whitespace_def)

lemma append_content_type:
  "Headers_append h ''content-type'' ''application/json''
     = Inr (h @ [(''content-type'', ''application/json'')])"
  by (simp add: Headers_append_def normalize_value_def is_header_value_def http_whitespace_def)

lemma request_headers_None:
  "request_headers None
     = Inr [(''accept'', ''application/vnd.oscp+json; version=1.0;''),
            (''content-type'', ''application/json'')]"
  by (simp add: request_headers_def append_accept append_content_type truthy_def)

lemma request_headers_Some:
  "request_headers (Some t) =
     (if t = [] then
        Inr [(''accept'', ''application/vnd.oscp+json; version=1.0;''),
             (''content-type'', ''application/json'')]
      else if is_header_value (normalize_value (''Bearer '' @ t)) then
        Inr [(''accept'', ''application/vnd.oscp+json; version=1.0;''),
             (''content-type'', ''application/json''),
             (''authorization'', normalize_value (''Bearer '' @ t))]
      else Inl (TypeError (normalize_value (''Bearer '' @ t))))"
  unfolding request_headers_def append_accept append_content_type
  by (simp add: truthy_def Headers_append_def Let_def)

lemma bearer_empty: "is_header_value (normalize_value ''Bearer '')"
  by (simp add: normalize_value_def is_header_value_def http_whitespace_def)

lemma normalize_bearer:
  assumes "token \<noteq> []" and "\<not> http_whitespace (last token)"
  shows "normalize_value (''Bearer '' @ token) = ''Bearer '' @ token"
proof -
  from assms(1) obtain ys y where t: "token = ys @ [y]"
    by (cases token rule: rev_cases) auto
  with assms(2) have "\<not> http_whitespace y" by simp
  then show ?thesis
    by (simp add: t normalize_value_def http_whitespace_def)
qed

lemma fst_request:
  "fst (request P url method body token) =
     (case request_headers token of
        Inl e \<Rightarrow> []
      | Inr headers \<Rightarrow> [request_options url method body headers])"
  by (simp add: request_def Let_def split: sum.splits)

lemma request_refused:
  "request_headers token = Inl e \<Longrightarrow> request P url method body token = ([], Inl e)"
  by (simp add: request_def)

lemma trace_getContentsAtLocation:
  "fst (getContentsAtLocation P local url topic h3Index keywords) =
     (if local \<or> topic = [] \<or> h3Index = [] then []
      else [request_options
              (url @ ''/scrs/'' @ topic @ ''?h3Index='' @ h3Index @
                 (case keywords of None \<Rightarrow> [] | Some k \<Rightarrow> if k = [] then [] else ''&keywords='' @ k))
              None None
              [(''accept'', ''application/vnd.oscp+json; version=1.0;''),
               (''content-type'', ''application/json'')]])"
  by (simp add: getContentsAtLocation_def Let_def fst_and_then fst_request request_headers_None
        scrsPath_def split: option.splits)

lemma trace_getContentWithId:
  "fst (getContentWithId P local url topic id') =
     (if local \<or> length id' < 16 then []
      else [request_options (url @ ''/scrs/'' @ topic @ ''/'' @ id') None None
              [(''accept'', ''application/vnd.oscp+json; version=1.0;''),
               (''content-type'', ''application/json'')]])"
  by (simp add: getContentWithId_def fst_and_then fst_request request_headers_None scrsPath_def)

lemma trace_searchContentsForTenant:
  "fst (searchContentsForTenant P local url topic token) =
     (if is_header_value (normalize_value (''Bearer '' @ token))
      then [request_options (url @ ''/tenant/scrs/'' @ topic) (Some ''get'') (Some [])
              ([(''accept'', ''application/vnd.oscp+json; version=1.0;''),
                (''content-type'', ''application/json'')]
               @ (if token = [] then []
                  else [(''authorization'', normalize_value (''Bearer '' @ token))]))]
      else [])"
  by (simp add: searchContentsForTenant_def fst_and_then fst_request request_headers_Some
        bearer_empty scrsPath_def GET_METHOD_def)

lemma trace_deleteWithId:
  "fst (deleteWithId P local url topic id' token) =
     (if is_header_value (normalize_value (''Bearer '' @ token))
      then [request_options (url @ ''/scrs/'' @ topic @ ''/'' @ id') (Some ''delete'') (Some [])
              ([(''accept'', ''application/vnd.oscp+json; version=1.0;''),
                (''content-type'', ''application/json'')]
               @ (if token = [] then []
                  else [(''authorization'', normalize_value (''Bearer '' @ token))]))]
      else [])"
  by (simp add: deleteWithId_def fst_and_then fst_request request_headers_Some
        bearer_empty scrsPath_def DELETE_METHOD_def)

lemma trace_postContent:
  "fst (postContent P local url topic scr token) =
     (if local \<or> token = [] \<or> zod_issues (is_url P) scrNoIdSchema [] scr \<noteq> []
         \<or> \<not> is_header_value (normalize_value (''Bearer '' @ token))
      then []
      else [request_options (url @ ''/scrs/'' @ topic) (Some ''post'') (Some (JSON_stringify P scr))
              [(''accept'', ''application/vnd.oscp+json; version=1.0;''),
               (''content-type'', ''application/json''),
               (''authorization'', normalize_value (''Bearer '' @ token))]])"
  by (simp add: postContent_def zod_parse_def fst_and_then fst_request request_headers_Some
        scrsPath_def POST_METHOD_def split: list.splits)

lemma trace_putContent:
  "fst (putContent P local url topic scr id' token) =
     (if local \<or> id' = [] \<or> token = [] \<or> zod_issues (is_url P) scrSchema [] scr \<noteq> []
         \<or> \<not> is_header_value (normalize_value (''Bearer '' @ token))
      then []
      else [request_options (url @ ''/scrs/'' @ topic @ ''/'' @ id') (Some ''put'')
              (Some (JSON_stringify P scr))
              [(''accept'', ''application/vnd.oscp+json; version=1.0;''),
               (''content-type'', ''application/json''),
               (''authorization'', normalize_value (''Bearer '' @ token))]])"
  by (simp add: putContent_def zod_parse_def fst_and_then fst_request request_headers_Some
        scrsPath_def PUT_METHOD_def split: list.splits)

lemma trace_postScrFile:
  "fst (postScrFile P local url topic f token) =
     (case file_content f of
        Inl reader_error \<Rightarrow> []
      | Inr text \<Rightarrow>
          (case JSON_parse P text of
             Inl msg \<Rightarrow> []
           | Inr v \<Rightarrow>
               if zod_issues (is_url P) scrNoIdSchema [] v \<noteq> [] then []
               else fst (postContent P local url topic (zod_output scrNoIdSchema v) token)))"
  by (simp add: postScrFile_def getFileContent_def zod_parse_def split: sum.splits list.splits)

lemma postScrFile_trace:
  assumes "r \<in> set (fst (postScrFile P local url topic f token))"
  shows "\<exists>t v. file_content f = Inr t \<and> JSON_parse P t = Inr v
           \<and> r \<in> set (fst (postContent P local url topic (zod_output scrNoIdSchema v) token))"
proof (cases "file_content f")
  case (Inl e)
  with assms show ?thesis by (simp add: trace_postScrFile)
next
  case t: (Inr t)
  show ?thesis
  proof (cases "JSON_parse P t")
    case (Inl msg)
    with assms t show ?thesis by (simp add: trace_postScrFile)
  next
    case (Inr v)
    with assms t show ?thesis by (simp add: trace_postScrFile split: if_splits)
  qed
qed

text \<open>The parts of the request \<^verbatim>\<open>request\<close> builds.\<close>

lemma request_options_method:
  "req_method (request_options u m b h) = (case m of None \<Rightarrow> ''get'' | Some x \<Rightarrow> x)"
  by (simp add: request_options_def GET_METHOD_def Let_def split: option.splits)

lemma request_options_headers: "req_headers (request_options u m b h) = h"
  by (simp add: request_options_def Let_def)

lemma request_options_url: "req_url (request_options u m b h) = u"
  by (simp add: request_options_def Let_def)

lemma request_options_body:
  "req_body (request_options u m b h) =
     (if m = Some ''post'' \<or> m = Some ''put'' then Some (case b of None \<Rightarrow> [] | Some x \<Rightarrow> x) else None)"
  by (simp add: request_options_def GET_METHOD_def POST_METHOD_def PUT_METHOD_def Let_def
        split: option.splits)

lemma request_options_record:
  "request_options u m b h =
     \<lparr> req_url = u, req_method = (case m of None \<Rightarrow> ''get'' | Some x \<Rightarrow> x), req_headers = h,
       req_body = (if m = Some ''post'' \<or> m = Some ''put''
                   then Some (case b of None \<Rightarrow> [] | Some x \<Rightarrow> x) else None) \<rparr>"
  by (simp add: request_options_def GET_METHOD_def POST_METHOD_def PUT_METHOD_def Let_def
        split: option.splits)

section \<open>What the schemas check\<close>

text \<open>
  An object that passes an object schema passes, property by property, the schema of
  each key; an array that passes an array schema is an array whose elements all pass.
\<close>

lemma zod_issues_object_field:
  "zod_issues u (ZObject shape) p v = [] \<Longrightarrow> (k, s) \<in> set shape \<Longrightarrow>
     zod_issues u s (p @ [Key k]) (js_prop v k) = []"
  by (cases v) (force simp add: js_prop_def)+

lemma zod_issues_array:
  assumes "zod_issues u (ZArray s) p v = []"
  shows "\<exists>xs. v = JArr xs \<and> (\<forall>i < length xs. zod_issues u s (p @ [Idx i]) (xs ! i) = [])"
proof (cases v)
  case (JArr xs)
  have "zod_issues u s (p @ [Idx i]) (xs ! i) = []" if "i < length xs" for i
  proof -
    have "(i, xs ! i) \<in> set (enumerate 0 xs)"
      using that by (simp add: in_set_enumerate_eq)
    with assms JArr show ?thesis by force
  qed
  with JArr show ?thesis by simp
qed (use assms in simp_all)

lemma zod_issues_refSchema:
  "zod_issues u refSchema p r = [] \<Longrightarrow>
     (\<exists>c. js_prop r ''contentType'' = JStr c) \<and> (\<exists>s. js_prop r ''url'' = JStr s \<and> u s)"
  by (cases r) (auto simp add: refSchema_def js_prop_def split: jsval.splits if_splits)

lemma zod_issues_scrSchema:
  "zod_issues u scrSchema [] scr = [] \<longleftrightarrow>
     zod_issues u scrNoIdSchema [] scr = [] \<and> (\<exists>s. js_prop scr ''id'' = JStr s)"
  by (cases scr) (auto simp add: scrSchema_def scrNoIdSchema_def js_prop_def split: jsval.splits)

lemma zod_issues_refs:
  assumes "zod_issues u scrNoIdSchema [] v = []"
    and "js_prop (js_prop v ''content'') ''refs'' \<noteq> JUndefined"
  shows "\<exists>rs. js_prop (js_prop v ''content'') ''refs'' = JArr rs
          \<and> list_all (\<lambda>r. (\<exists>c. js_prop r ''contentType'' = JStr c)
                            \<and> (\<exists>s. js_prop r ''url'' = JStr s \<and> u s)) rs"
proof -
  have c: "zod_issues u contentSchema [Key ''content''] (js_prop v ''content'') = []"
    using zod_issues_object_field [of u scrNoIdShape "[]" v "''content''" contentSchema] assms(1)
    by (simp add: scrNoIdSchema_def scrNoIdShape_def)
  have "zod_issues u (ZOptional (ZArray refSchema)) [Key ''content'', Key ''refs'']
          (js_prop (js_prop v ''content'') ''refs'') = []"
    using zod_issues_object_field [of u _ "[Key ''content'']" "js_prop v ''content''" "''refs''"
             "ZOptional (ZArray refSchema)"] c
    by (simp add: contentSchema_def)
  with assms(2) have "zod_issues u (ZArray refSchema) [Key ''content'', Key ''refs'']
          (js_prop (js_prop v ''content'') ''refs'') = []"
    by (simp split: jsval.splits)
  from zod_issues_array [OF this] obtain rs where
    rs: "js_prop (js_prop v ''content'') ''refs'' = JArr rs"
    and each: "\<forall>i < length rs. zod_issues u refSchema ([Key ''content'', Key ''refs''] @ [Idx i]) (rs ! i) = []"
    by blast
  have "list_all (\<lambda>r. (\<exists>c. js_prop r ''contentType'' = JStr c)
                            \<and> (\<exists>s. js_prop r ''url'' = JStr s \<and> u s)) rs"
    unfolding list_all_length using each zod_issues_refSchema by blast
  with rs show ?thesis by blast
qed

section \<open>The sample data evaluated\<close>

lemma localResult_conforms: "zod_issues sample_is_url scrSchema [] localResult = []"
  by (simp add: scrSchema_def scrNoIdShape_def contentSchema_def geoPoseSchema_def
        positionSchema_def quaternionSchema_def refSchema_def defSchema_def
        localResult_def js_get_def)

lemma localResult_stripped:
  "zod_output scrNoIdSchema localResult = localResult_stripped"
  by (simp add: scrNoIdSchema_def scrNoIdShape_def contentSchema_def geoPoseSchema_def
        positionSchema_def quaternionSchema_def refSchema_def defSchema_def
        localResult_def localResult_stripped_def js_get_def)

lemma localResult_stripped_conforms:
  "zod_issues sample_is_url scrNoIdSchema [] localResult_stripped = []"
  by (simp add: scrNoIdSchema_def scrNoIdShape_def contentSchema_def geoPoseSchema_def
        positionSchema_def quaternionSchema_def refSchema_def defSchema_def
        localResult_stripped_def js_get_def)

lemma bearer_tok:
  "normalize_value ''Bearer tok'' = ''Bearer tok''"
  "is_header_value ''Bearer tok''"
  "normalize_value ''Bearer tok '' = ''Bearer tok''"
  by (simp_all add: normalize_value_def is_header_value_def http_whitespace_def)

lemma bearer_line_feed:
  "normalize_value [CHR ''B'', CHR ''e'', CHR ''a'', CHR ''r'', CHR ''e'', CHR ''r'', CHR 0x20,
                    CHR ''a'', CHR 0x0A, CHR ''b'']
     = [CHR ''B'', CHR ''e'', CHR ''a'', CHR ''r'', CHR ''e'', CHR ''r'', CHR 0x20,
        CHR ''a'', CHR 0x0A, CHR ''b'']"
  "\<not> is_header_value [CHR ''B'', CHR ''e'', CHR ''a'', CHR ''r'', CHR ''e'', CHR ''r'', CHR 0x20,
                        CHR ''a'', CHR 0x0A, CHR ''b'']"
  by (simp_all add: normalize_value_def is_header_value_def http_whitespace_def)

lemma sample_platform_simps:
  "is_url sample_platform = sample_is_url"
  "JSON_stringify sample_platform = sample_JSON_stringify"
  "JSON_parse sample_platform = sample_JSON_parse"
  by (simp_all add: sample_platform_def)

section \<open>Properties\<close>

text \<open>
  C1. With \<^verbatim>\<open>local\<close> enabled every network-backed operation is to skip the network and
  return its fixture or \<^verbatim>\<open>OK\<close>. The functions \<^verbatim>\<open>deleteWithId\<close> and
  \<^verbatim>\<open>searchContentsForTenant\<close> never read \<^verbatim>\<open>local\<close>. With the flag enabled each of them
  still runs \<^verbatim>\<open>request\<close>: for a token whose authorization value \<^verbatim>\<open>headers.append\<close>
  accepts (the empty token, for which nothing is appended, among them) it hands one
  request to \<^verbatim>\<open>fetch\<close>, and for any other token it ends in the \<^verbatim>\<open>TypeError\<close> of
  \<^verbatim>\<open>headers.append\<close>.
\<close>

theorem local_flag_ignored:
  "(is_header_value (normalize_value (''Bearer '' @ token)) \<longrightarrow>
      fst (deleteWithId P True url topic id' token)
        = [\<lparr> req_url = url @ ''/scrs/'' @ topic @ ''/'' @ id', req_method = ''delete'',
             req_headers = [(''accept'', ''application/vnd.oscp+json; version=1.0;''),
                            (''content-type'', ''application/json'')]
                           @ (if token = [] then []
                              else [(''authorization'', normalize_value (''Bearer '' @ token))]),
             req_body = None \<rparr>]
      \<and> fst (searchContentsForTenant P True url topic token)
        = [\<lparr> req_url = url @ ''/tenant/scrs/'' @ topic, req_method = ''get'',
             req_headers = [(''accept'', ''application/vnd.oscp+json; version=1.0;''),
                            (''content-type'', ''application/json'')]
                           @ (if token = [] then []
                              else [(''authorization'', normalize_value (''Bearer '' @ token))]),
             req_body = None \<rparr>])
   \<and> (\<not> is_header_value (normalize_value (''Bearer '' @ token)) \<longrightarrow>
      deleteWithId P True url topic id' token
        = ([], Inl (TypeError (normalize_value (''Bearer '' @ token))))
      \<and> searchContentsForTenant P True url topic token
        = ([], Inl (TypeError (normalize_value (''Bearer '' @ token)))))"
proof (intro conjI impI)
  assume ok: "is_header_value (normalize_value (''Bearer '' @ token))"
  then show "fst (deleteWithId P True url topic id' token)
        = [\<lparr> req_url = url @ ''/scrs/'' @ topic @ ''/'' @ id', req_method = ''delete'',
             req_headers = [(''accept'', ''application/vnd.oscp+json; version=1.0;''),
                            (''content-type'', ''application/json'')]
                           @ (if token = [] then []
                              else [(''authorization'', normalize_value (''Bearer '' @ token))]),
             req_body = None \<rparr>]"
    by (simp add: trace_deleteWithId request_options_record)
  from ok show "fst (searchContentsForTenant P True url topic token)
        = [\<lparr> req_url = url @ ''/tenant/scrs/'' @ topic, req_method = ''get'',
             req_headers = [(''accept'', ''application/vnd.oscp+json; version=1.0;''),
                            (''content-type'', ''application/json'')]
                           @ (if token = [] then []
                              else [(''authorization'', normalize_value (''Bearer '' @ token))]),
             req_body = None \<rparr>]"
    by (simp add: trace_searchContentsForTenant request_options_record)
next
  assume bad: "\<not> is_header_value (normalize_value (''Bearer '' @ token))"
  then have "token \<noteq> []"
    using bearer_empty by auto
  with bad have h: "request_headers (Some token)
      = Inl (TypeError (normalize_value (''Bearer '' @ token)))"
    by (simp add: request_headers_Some)
  show "deleteWithId P True url topic id' token
        = ([], Inl (TypeError (normalize_value (''Bearer '' @ token))))"
    by (simp add: deleteWithId_def request_refused [OF h] and_then_def)
  show "searchContentsForTenant P True url topic token
        = ([], Inl (TypeError (normalize_value (''Bearer '' @ token))))"
    by (simp add: searchContentsForTenant_def request_refused [OF h] and_then_def)
qed

theorem local_flag_ignored_witness:
  "is_header_value (normalize_value (''Bearer '' @ ''tok''))
   \<and> fst (deleteWithId sample_platform True ''https://svc'' ''3d'' ''a3683f12b334dea6'' ''tok'')
     = [\<lparr> req_url = ''https://svc/scrs/3d/a3683f12b334dea6'', req_method = ''delete'',
          req_headers = [(''accept'', ''application/vnd.oscp+json; version=1.0;''),
                         (''content-type'', ''application/json''),
                         (''authorization'', ''Bearer tok'')],
          req_body = None \<rparr>]
   \<and> fst (searchContentsForTenant sample_platform True ''https://svc'' ''3d'' ''tok'')
     = [\<lparr> req_url = ''https://svc/tenant/scrs/3d'', req_method = ''get'',
          req_headers = [(''accept'', ''application/vnd.oscp+json; version=1.0;''),
                         (''content-type'', ''application/json''),
                         (''authorization'', ''Bearer tok'')],
          req_body = None \<rparr>]
   \<and> \<not> is_header_value (normalize_value (''Bearer '' @ [CHR ''a'', CHR 0x0A, CHR ''b'']))
   \<and> deleteWithId sample_platform True ''https://svc'' ''3d'' ''a3683f12b334dea6''
        [CHR ''a'', CHR 0x0A, CHR ''b'']
     = ([], Inl (TypeError (''Bearer '' @ [CHR ''a'', CHR 0x0A, CHR ''b''])))
   \<and> searchContentsForTenant sample_platform True ''https://svc'' ''3d''
        [CHR ''a'', CHR 0x0A, CHR ''b'']
     = ([], Inl (TypeError (''Bearer '' @ [CHR ''a'', CHR 0x0A, CHR ''b''])))"
  using local_flag_ignored [of "''tok''" sample_platform "''https://svc''" "''3d''" "''a3683f12b334dea6''"]
        local_flag_ignored [of "[CHR ''a'', CHR 0x0A, CHR ''b'']" sample_platform "''https://svc''"
                               "''3d''" "''a3683f12b334dea6''"]
  by (simp add: bearer_tok bearer_line_feed)

text \<open>
  C2, as the claim states it: a candidate whose \<^verbatim>\<open>refs\<close> is the empty array would be
  rejected. The schemas put no bound on the length of \<^verbatim>\<open>refs\<close>: the candidate
  \<open>scr_empty_refs\<close> passes both \<^verbatim>\<open>scrNoIdSchema\<close> and \<^verbatim>\<open>scrSchema\<close>, and \<^verbatim>\<open>postContent\<close>
  and \<^verbatim>\<open>putContent\<close> send it.
\<close>

theorem empty_refs_accepted:
  "js_prop (js_prop scr_empty_refs ''content'') ''refs'' = JArr []
   \<and> zod_issues sample_is_url scrNoIdSchema [] scr_empty_refs = []
   \<and> zod_issues sample_is_url scrSchema [] scr_empty_refs = []
   \<and> map req_method (fst (postContent sample_platform False ''https://svc'' ''3d'' scr_empty_refs ''tok''))
       = [''post'']
   \<and> map req_method (fst (putContent sample_platform False ''https://svc'' ''3d'' scr_empty_refs
                             ''a3683f12b334dea6'' ''tok''))
       = [''put'']"
proof -
  have a: "zod_issues sample_is_url scrNoIdSchema [] scr_empty_refs = []"
    by (simp add: scrNoIdSchema_def scrNoIdShape_def contentSchema_def geoPoseSchema_def
          positionSchema_def quaternionSchema_def refSchema_def defSchema_def
          scr_empty_refs_def js_get_def)
  have b: "zod_issues sample_is_url scrSchema [] scr_empty_refs = []"
    by (simp add: scrSchema_def scrNoIdShape_def contentSchema_def geoPoseSchema_def
          positionSchema_def quaternionSchema_def refSchema_def defSchema_def
          scr_empty_refs_def js_get_def)
  have c: "js_prop (js_prop scr_empty_refs ''content'') ''refs'' = JArr []"
    by (simp add: scr_empty_refs_def js_prop_def js_get_def)
  have P: "is_url sample_platform = sample_is_url"
    by (simp add: sample_platform_def)
  show ?thesis
    by (simp add: a b c P trace_postContent trace_putContent request_options_method bearer_tok)
qed

text \<open>
  C2, amended. A candidate whose content carries a \<^verbatim>\<open>refs\<close> field passes \<^verbatim>\<open>scrNoIdSchema\<close>
  or \<^verbatim>\<open>scrSchema\<close> only if \<^verbatim>\<open>refs\<close> is an array and every element of it is a well-formed
  reference: \<^verbatim>\<open>contentType\<close> a string and \<^verbatim>\<open>url\<close> a string that is a URL. The empty array
  passes the schema of \<^verbatim>\<open>refs\<close>.
\<close>

theorem refs_elements_well_formed:
  "(zod_issues u scrNoIdSchema [] v = [] \<or> zod_issues u scrSchema [] v = [] \<longrightarrow>
      js_prop (js_prop v ''content'') ''refs'' \<noteq> JUndefined \<longrightarrow>
      (\<exists>rs. js_prop (js_prop v ''content'') ''refs'' = JArr rs
          \<and> list_all (\<lambda>r. (\<exists>c. js_prop r ''contentType'' = JStr c)
                            \<and> (\<exists>s. js_prop r ''url'' = JStr s \<and> u s)) rs))
   \<and> zod_issues u (ZOptional (ZArray refSchema)) p (JArr []) = []"
proof (intro conjI impI)
  assume "zod_issues u scrNoIdSchema [] v = [] \<or> zod_issues u scrSchema [] v = []"
  then have "zod_issues u scrNoIdSchema [] v = []"
    using zod_issues_scrSchema by blast
  moreover assume "js_prop (js_prop v ''content'') ''refs'' \<noteq> JUndefined"
  ultimately show "\<exists>rs. js_prop (js_prop v ''content'') ''refs'' = JArr rs
          \<and> list_all (\<lambda>r. (\<exists>c. js_prop r ''contentType'' = JStr c)
                            \<and> (\<exists>s. js_prop r ''url'' = JStr s \<and> u s)) rs"
    by (rule zod_issues_refs)
next
  show "zod_issues u (ZOptional (ZArray refSchema)) p (JArr []) = []"
    by simp
qed

theorem refs_elements_well_formed_witness:
  "zod_issues sample_is_url scrNoIdSchema [] scr_with_ref = []
   \<and> js_prop (js_prop scr_with_ref ''content'') ''refs''
       = JArr [JObj [(''contentType'', JStr ''model/gltf-binary''),
                     (''url'', JStr ''https://www.example.com/cat.glb'')]]
   \<and> sample_is_url ''https://www.example.com/cat.glb''"
proof -
  have a: "zod_issues sample_is_url scrNoIdSchema [] scr_with_ref = []"
    by (simp add: scrNoIdSchema_def scrNoIdShape_def contentSchema_def geoPoseSchema_def
          positionSchema_def quaternionSchema_def refSchema_def defSchema_def
          scr_with_ref_def js_get_def sample_is_url_def)
  have b: "js_prop (js_prop scr_with_ref ''content'') ''refs''
       = JArr [JObj [(''contentType'', JStr ''model/gltf-binary''),
                     (''url'', JStr ''https://www.example.com/cat.glb'')]]"
    by (simp add: scr_with_ref_def js_prop_def js_get_def)
  show ?thesis
    using refs_elements_well_formed [of sample_is_url scr_with_ref] a b
    by (simp add: js_prop_def js_get_def)
qed

text \<open>
  C3. \<^verbatim>\<open>putContent\<close> with \<^verbatim>\<open>local\<close> disabled: an empty id or an empty token fails with the
  \<^verbatim>\<open>Check parameters\<close> error and no request. Otherwise the record is checked against
  \<^verbatim>\<open>scrSchema\<close> first: a record that fails ends in the \<^verbatim>\<open>ZodError\<close> with no request.
  A record that passes goes to \<^verbatim>\<open>request\<close>: when \<^verbatim>\<open>headers.append\<close> accepts the
  authorization value, one \<^verbatim>\<open>put\<close> request to \<^verbatim>\<open>{url}/scrs/{topic}/{id}\<close> is issued,
  and when it refuses the value the call ends in its \<^verbatim>\<open>TypeError\<close> with no request.
  Passing \<^verbatim>\<open>scrSchema\<close> is passing \<^verbatim>\<open>scrNoIdSchema\<close> and having a string as top-level
  \<^verbatim>\<open>id\<close>.
\<close>

theorem putContent_checks_then_validates:
  "(id' = [] \<or> token = [] \<longrightarrow>
      putContent P False url topic scr id' token
        = ([], Inl (Error (''Check parameters: '' @ id' @ '', '' @ token))))
   \<and> (id' \<noteq> [] \<and> token \<noteq> [] \<and> zod_issues (is_url P) scrSchema [] scr \<noteq> [] \<longrightarrow>
      putContent P False url topic scr id' token
        = ([], Inl (ZodError (zod_issues (is_url P) scrSchema [] scr))))
   \<and> (id' \<noteq> [] \<and> token \<noteq> [] \<and> zod_issues (is_url P) scrSchema [] scr = []
        \<and> is_header_value (normalize_value (''Bearer '' @ token)) \<longrightarrow>
      fst (putContent P False url topic scr id' token)
        = [\<lparr> req_url = url @ ''/scrs/'' @ topic @ ''/'' @ id', req_method = ''put'',
             req_headers = [(''accept'', ''application/vnd.oscp+json; version=1.0;''),
                            (''content-type'', ''application/json''),
                            (''authorization'', normalize_value (''Bearer '' @ token))],
             req_body = Some (JSON_stringify P scr) \<rparr>])
   \<and> (id' \<noteq> [] \<and> token \<noteq> [] \<and> zod_issues (is_url P) scrSchema [] scr = []
        \<and> \<not> is_header_value (normalize_value (''Bearer '' @ token)) \<longrightarrow>
      putContent P False url topic scr id' token
        = ([], Inl (TypeError (normalize_value (''Bearer '' @ token)))))
   \<and> (zod_issues (is_url P) scrSchema [] scr = [] \<longleftrightarrow>
        zod_issues (is_url P) scrNoIdSchema [] scr = [] \<and> (\<exists>s. js_prop scr ''id'' = JStr s))"
proof (intro conjI impI)
  assume "id' = [] \<or> token = []"
  then show "putContent P False url topic scr id' token
        = ([], Inl (Error (''Check parameters: '' @ id' @ '', '' @ token)))"
    by (auto simp add: putContent_def)
next
  assume "id' \<noteq> [] \<and> token \<noteq> [] \<and> zod_issues (is_url P) scrSchema [] scr \<noteq> []"
  then show "putContent P False url topic scr id' token
        = ([], Inl (ZodError (zod_issues (is_url P) scrSchema [] scr)))"
    by (simp add: putContent_def zod_parse_def split: list.splits)
next
  assume "id' \<noteq> [] \<and> token \<noteq> [] \<and> zod_issues (is_url P) scrSchema [] scr = []
        \<and> is_header_value (normalize_value (''Bearer '' @ token))"
  then show "fst (putContent P False url topic scr id' token)
        = [\<lparr> req_url = url @ ''/scrs/'' @ topic @ ''/'' @ id', req_method = ''put'',
             req_headers = [(''accept'', ''application/vnd.oscp+json; version=1.0;''),
                            (''content-type'', ''application/json''),
                            (''authorization'', normalize_value (''Bearer '' @ token))],
             req_body = Some (JSON_stringify P scr) \<rparr>]"
    by (simp add: trace_putContent request_options_record)
next
  assume a: "id' \<noteq> [] \<and> token \<noteq> [] \<and> zod_issues (is_url P) scrSchema [] scr = []
        \<and> \<not> is_header_value (normalize_value (''Bearer '' @ token))"
  then have h: "request_headers (Some token)
      = Inl (TypeError (normalize_value (''Bearer '' @ token)))"
    by (simp add: request_headers_Some)
  from a show "putContent P False url topic scr id' token
        = ([], Inl (TypeError (normalize_value (''Bearer '' @ token))))"
    by (simp add: putContent_def zod_parse_def request_refused [OF h] and_then_def)
next
  show "zod_issues (is_url P) scrSchema [] scr = [] \<longleftrightarrow>
        zod_issues (is_url P) scrNoIdSchema [] scr = [] \<and> (\<exists>s. js_prop scr ''id'' = JStr s)"
    by (rule zod_issues_scrSchema)
qed

theorem putContent_checks_then_validates_witness:
  "putContent sample_platform False ''https://svc'' ''3d'' localResult [] ''tok''
     = ([], Inl (Error ''Check parameters: , tok''))
   \<and> putContent sample_platform False ''https://svc'' ''3d'' localResult ''a3683f12b334dea6'' []
     = ([], Inl (Error ''Check parameters: a3683f12b334dea6, ''))
   \<and> zod_issues sample_is_url scrSchema [] (JObj []) \<noteq> []
   \<and> putContent sample_platform False ''https://svc'' ''3d'' (JObj []) ''a3683f12b334dea6'' ''tok''
     = ([], Inl (ZodError [Invalid_type [Key ''type''], Invalid_type [Key ''content''], Invalid_type [Key ''id'']]))
   \<and> zod_issues sample_is_url scrSchema [] localResult = []
   \<and> is_header_value (normalize_value (''Bearer '' @ ''tok''))
   \<and> fst (putContent sample_platform False ''https://svc'' ''3d'' localResult ''a3683f12b334dea6'' ''tok'')
     = [\<lparr> req_url = ''https://svc/scrs/3d/a3683f12b334dea6'', req_method = ''put'',
          req_headers = [(''accept'', ''application/vnd.oscp+json; version=1.0;''),
                         (''content-type'', ''application/json''),
                         (''authorization'', ''Bearer tok'')],
          req_body = Some localResult_text \<rparr>]
   \<and> \<not> is_header_value (normalize_value (''Bearer '' @ [CHR ''a'', CHR 0x0A, CHR ''b'']))
   \<and> putContent sample_platform False ''https://svc'' ''3d'' localResult ''a3683f12b334dea6''
        [CHR ''a'', CHR 0x0A, CHR ''b'']
     = ([], Inl (TypeError (''Bearer '' @ [CHR ''a'', CHR 0x0A, CHR ''b''])))
   \<and> js_prop localResult ''id'' = JStr ''a3683f12b334dea6''"
proof -
  have bad: "zod_issues sample_is_url scrSchema [] (JObj [])
       = [Invalid_type [Key ''type''], Invalid_type [Key ''content''], Invalid_type [Key ''id'']]"
    by (simp add: scrSchema_def scrNoIdShape_def contentSchema_def js_get_def)
  have idp: "js_prop localResult ''id'' = JStr ''a3683f12b334dea6''"
    by (simp add: localResult_def js_prop_def js_get_def)
  have str: "sample_JSON_stringify localResult = localResult_text"
    by (simp add: sample_JSON_stringify_def)
  show ?thesis
    using putContent_checks_then_validates [of "[]" "''tok''" sample_platform "''https://svc''" "''3d''" localResult]
          putContent_checks_then_validates [of "''a3683f12b334dea6''" "[]" sample_platform "''https://svc''" "''3d''" localResult]
          putContent_checks_then_validates [of "''a3683f12b334dea6''" "''tok''" sample_platform "''https://svc''" "''3d''" "JObj []"]
          putContent_checks_then_validates [of "''a3683f12b334dea6''" "''tok''" sample_platform "''https://svc''" "''3d''" localResult]
          putContent_checks_then_validates [of "''a3683f12b334dea6''" "[CHR ''a'', CHR 0x0A, CHR ''b'']" sample_platform "''https://svc''" "''3d''" localResult]
    by (simp add: sample_platform_simps bad localResult_conforms idp str bearer_tok bearer_line_feed)
qed

text \<open>
  C4. \<^verbatim>\<open>getContentWithId\<close> with \<^verbatim>\<open>local\<close> disabled: an id shorter than 16 fails with the
  \<^verbatim>\<open>Check parameters\<close> error and no request; an id of length at least 16 issues one
  \<^verbatim>\<open>get\<close> request to exactly \<^verbatim>\<open>{url}/scrs/{topic}/{id}\<close>.
\<close>

theorem getContentWithId_short_id:
  "(length id' < 16 \<longrightarrow>
      getContentWithId P False url topic id' = ([], Inl (Error (''Check parameters: '' @ id'))))
   \<and> (16 \<le> length id' \<longrightarrow>
      fst (getContentWithId P False url topic id') =
        [\<lparr> req_url = url @ ''/scrs/'' @ topic @ ''/'' @ id', req_method = ''get'',
            req_headers = [(''accept'', ''application/vnd.oscp+json; version=1.0;''),
                           (''content-type'', ''application/json'')],
            req_body = None \<rparr>])"
proof (intro conjI impI)
  assume "length id' < 16"
  then show "getContentWithId P False url topic id' = ([], Inl (Error (''Check parameters: '' @ id')))"
    by (simp add: getContentWithId_def)
next
  assume "16 \<le> length id'"
  then show "fst (getContentWithId P False url topic id') =
        [\<lparr> req_url = url @ ''/scrs/'' @ topic @ ''/'' @ id', req_method = ''get'',
            req_headers = [(''accept'', ''application/vnd.oscp+json; version=1.0;''),
                           (''content-type'', ''application/json'')],
            req_body = None \<rparr>]"
    by (simp add: trace_getContentWithId request_options_record)
qed

theorem getContentWithId_short_id_witness:
  "length ''a3683f12'' < 16
   \<and> getContentWithId sample_platform False ''https://svc'' ''3d'' ''a3683f12''
       = ([], Inl (Error ''Check parameters: a3683f12''))
   \<and> 16 \<le> length ''a3683f12b334dea6''
   \<and> map req_url (fst (getContentWithId sample_platform False ''https://svc'' ''3d'' ''a3683f12b334dea6''))
       = [''https://svc/scrs/3d/a3683f12b334dea6'']"
  using getContentWithId_short_id [of "''a3683f12''" sample_platform "''https://svc''" "''3d''"]
        getContentWithId_short_id [of "''a3683f12b334dea6''" sample_platform "''https://svc''" "''3d''"]
  by simp

text \<open>
  C5. \<^verbatim>\<open>getContentsAtLocation\<close> with \<^verbatim>\<open>local\<close> disabled and an empty topic or an empty
  h3Index fails with the \<^verbatim>\<open>Check parameters\<close> error and issues no request.
\<close>

theorem getContentsAtLocation_empty_args:
  "topic = [] \<or> h3Index = [] \<Longrightarrow>
     getContentsAtLocation P False url topic h3Index keywords
       = ([], Inl (Error (''Check parameters: '' @ topic @ '' '' @ h3Index)))"
  by (auto simp add: getContentsAtLocation_def Let_def)

theorem getContentsAtLocation_empty_args_witness:
  "getContentsAtLocation sample_platform False ''https://svc'' '''' ''8928308280fffff'' None
     = ([], Inl (Error ''Check parameters:  8928308280fffff''))
   \<and> getContentsAtLocation sample_platform False ''https://svc'' ''3d'' '''' (Some ''cat'')
     = ([], Inl (Error ''Check parameters: 3d ''))"
  using getContentsAtLocation_empty_args [of "''''" "''8928308280fffff''" sample_platform "''https://svc''" None]
        getContentsAtLocation_empty_args [of "''3d''" "''''" sample_platform "''https://svc''" "Some ''cat''"]
  by simp

text \<open>
  C6. Whenever \<^verbatim>\<open>getContentsAtLocation\<close> reaches the network, the URL requested is
  \<^verbatim>\<open>{url}/scrs/{topic}?h3Index={h3Index}\<close> when keywords is left out or empty (no
  keywords parameter at all), and that URL followed by \<^verbatim>\<open>&keywords={keywords}\<close> when
  keywords is not empty.
\<close>

theorem getContentsAtLocation_url:
  "fst (getContentsAtLocation P local url topic h3Index keywords) \<noteq> [] \<Longrightarrow>
     ((keywords = None \<or> keywords = Some []) \<longrightarrow>
        map req_url (fst (getContentsAtLocation P local url topic h3Index keywords))
          = [url @ ''/scrs/'' @ topic @ ''?h3Index='' @ h3Index])
     \<and> (\<forall>k. keywords = Some k \<and> k \<noteq> [] \<longrightarrow>
        map req_url (fst (getContentsAtLocation P local url topic h3Index keywords))
          = [url @ ''/scrs/'' @ topic @ ''?h3Index='' @ h3Index @ ''&keywords='' @ k])"
  by (auto simp add: trace_getContentsAtLocation request_options_url split: if_splits)

theorem getContentsAtLocation_url_witness:
  "fst (getContentsAtLocation sample_platform False ''https://svc'' ''3d'' ''8928308280fffff'' (Some [])) \<noteq> []
   \<and> map req_url (fst (getContentsAtLocation sample_platform False ''https://svc'' ''3d'' ''8928308280fffff'' (Some [])))
       = [''https://svc/scrs/3d?h3Index=8928308280fffff'']
   \<and> fst (getContentsAtLocation sample_platform False ''https://svc'' ''3d'' ''8928308280fffff'' (Some ''cat'')) \<noteq> []
   \<and> map req_url (fst (getContentsAtLocation sample_platform False ''https://svc'' ''3d'' ''8928308280fffff'' (Some ''cat'')))
       = [''https://svc/scrs/3d?h3Index=8928308280fffff&keywords=cat'']"
proof -
  have a: "fst (getContentsAtLocation sample_platform False ''https://svc'' ''3d'' ''8928308280fffff'' (Some [])) \<noteq> []"
    by (simp add: trace_getContentsAtLocation)
  have b: "fst (getContentsAtLocation sample_platform False ''https://svc'' ''3d'' ''8928308280fffff'' (Some ''cat'')) \<noteq> []"
    by (simp add: trace_getContentsAtLocation)
  show ?thesis
    using a b getContentsAtLocation_url [OF a] getContentsAtLocation_url [OF b] by simp
qed

text \<open>
  C7, as the claim states it: the value of the accept header would be
  \<^verbatim>\<open>application/vnd.oscp+json; version=1.0\<close>, and the value of the authorization header
  \<^verbatim>\<open>Bearer {token}\<close> for every token. The value \<^verbatim>\<open>request\<close> appends for accept ends in a
  semicolon, and \<^verbatim>\<open>headers.append\<close> removes the whitespace a token ends in.
\<close>

theorem accept_header_has_semicolon:
  "fst (getContentWithId sample_platform False ''https://svc'' ''3d'' ''a3683f12b334dea6'')
     = [\<lparr> req_url = ''https://svc/scrs/3d/a3683f12b334dea6'', req_method = ''get'',
          req_headers = [(''accept'', ''application/vnd.oscp+json; version=1.0;''),
                         (''content-type'', ''application/json'')],
          req_body = None \<rparr>]
   \<and> ''application/vnd.oscp+json; version=1.0;'' \<noteq> ''application/vnd.oscp+json; version=1.0''
   \<and> fst (deleteWithId sample_platform False ''https://svc'' ''3d'' ''a3683f12b334dea6'' ''tok '')
     = [\<lparr> req_url = ''https://svc/scrs/3d/a3683f12b334dea6'', req_method = ''delete'',
          req_headers = [(''accept'', ''application/vnd.oscp+json; version=1.0;''),
                         (''content-type'', ''application/json''),
                         (''authorization'', ''Bearer tok'')],
          req_body = None \<rparr>]
   \<and> ''Bearer tok'' \<noteq> ''Bearer '' @ ''tok ''"
  by (simp add: trace_getContentWithId trace_deleteWithId request_options_record bearer_tok)

text \<open>
  C7, amended. Every request an operation issues carries the header \<^verbatim>\<open>accept\<close> with the
  value \<^verbatim>\<open>application/vnd.oscp+json; version=1.0;\<close> and the header \<^verbatim>\<open>content-type\<close> with
  the value \<^verbatim>\<open>application/json\<close>. The header \<^verbatim>\<open>authorization\<close> is there exactly when a
  token that is not empty was supplied; its value is \<^verbatim>\<open>Bearer {token}\<close> with leading and
  trailing whitespace removed, which is \<^verbatim>\<open>Bearer {token}\<close> itself when the token does not
  end in whitespace. A body, the serialised record, is attached exactly by
  \<^verbatim>\<open>postContent\<close> (\<^verbatim>\<open>post\<close>, also when called from \<^verbatim>\<open>postScrFile\<close>) and \<^verbatim>\<open>putContent\<close>
  (\<^verbatim>\<open>put\<close>).
\<close>

theorem request_construction:
  "(\<forall>r \<in> set (fst (getContentsAtLocation P local url topic h3Index keywords)).
      req_headers r = [(''accept'', ''application/vnd.oscp+json; version=1.0;''),
                       (''content-type'', ''application/json'')]
      \<and> req_method r = ''get'' \<and> req_body r = None)
   \<and> (\<forall>r \<in> set (fst (getContentWithId P local url topic id')).
      req_headers r = [(''accept'', ''application/vnd.oscp+json; version=1.0;''),
                       (''content-type'', ''application/json'')]
      \<and> req_method r = ''get'' \<and> req_body r = None)
   \<and> (\<forall>r \<in> set (fst (searchContentsForTenant P local url topic token)).
      req_headers r = [(''accept'', ''application/vnd.oscp+json; version=1.0;''),
                       (''content-type'', ''application/json'')]
                      @ (if token = [] then []
                         else [(''authorization'', normalize_value (''Bearer '' @ token))])
      \<and> req_method r = ''get'' \<and> req_body r = None)
   \<and> (\<forall>r \<in> set (fst (postContent P local url topic scr token)).
      req_headers r = [(''accept'', ''application/vnd.oscp+json; version=1.0;''),
                       (''content-type'', ''application/json''),
                       (''authorization'', normalize_value (''Bearer '' @ token))]
      \<and> token \<noteq> []
      \<and> req_method r = ''post'' \<and> req_body r = Some (JSON_stringify P scr))
   \<and> (\<forall>r \<in> set (fst (postScrFile P local url topic f token)).
      req_headers r = [(''accept'', ''application/vnd.oscp+json; version=1.0;''),
                       (''content-type'', ''application/json''),
                       (''authorization'', normalize_value (''Bearer '' @ token))]
      \<and> token \<noteq> []
      \<and> req_method r = ''post''
      \<and> (\<exists>text v. file_content f = Inr text \<and> JSON_parse P text = Inr v
            \<and> req_body r = Some (JSON_stringify P (zod_output scrNoIdSchema v))))
   \<and> (\<forall>r \<in> set (fst (putContent P local url topic scr id' token)).
      req_headers r = [(''accept'', ''application/vnd.oscp+json; version=1.0;''),
                       (''content-type'', ''application/json''),
                       (''authorization'', normalize_value (''Bearer '' @ token))]
      \<and> token \<noteq> []
      \<and> req_method r = ''put'' \<and> req_body r = Some (JSON_stringify P scr))
   \<and> (\<forall>r \<in> set (fst (deleteWithId P local url topic id' token)).
      req_headers r = [(''accept'', ''application/vnd.oscp+json; version=1.0;''),
                       (''content-type'', ''application/json'')]
                      @ (if token = [] then []
                         else [(''authorization'', normalize_value (''Bearer '' @ token))])
      \<and> req_method r = ''delete'' \<and> req_body r = None)
   \<and> (token \<noteq> [] \<and> \<not> http_whitespace (last token) \<longrightarrow>
        normalize_value (''Bearer '' @ token) = ''Bearer '' @ token)"
proof (intro conjI)
  show "\<forall>r \<in> set (fst (getContentsAtLocation P local url topic h3Index keywords)).
      req_headers r = [(''accept'', ''application/vnd.oscp+json; version=1.0;''),
                       (''content-type'', ''application/json'')]
      \<and> req_method r = ''get'' \<and> req_body r = None"
    by (simp add: trace_getContentsAtLocation request_options_headers request_options_method
          request_options_body)
  show "\<forall>r \<in> set (fst (getContentWithId P local url topic id')).
      req_headers r = [(''accept'', ''application/vnd.oscp+json; version=1.0;''),
                       (''content-type'', ''application/json'')]
      \<and> req_method r = ''get'' \<and> req_body r = None"
    by (simp add: trace_getContentWithId request_options_headers request_options_method
          request_options_body)
  show "\<forall>r \<in> set (fst (searchContentsForTenant P local url topic token)).
      req_headers r = [(''accept'', ''application/vnd.oscp+json; version=1.0;''),
                       (''content-type'', ''application/json'')]
                      @ (if token = [] then []
                         else [(''authorization'', normalize_value (''Bearer '' @ token))])
      \<and> req_method r = ''get'' \<and> req_body r = None"
    by (simp add: trace_searchContentsForTenant request_options_headers request_options_method
          request_options_body)
  show post: "\<forall>r \<in> set (fst (postContent P local url topic scr token)).
      req_headers r = [(''accept'', ''application/vnd.oscp+json; version=1.0;''),
                       (''content-type'', ''application/json''),
                       (''authorization'', normalize_value (''Bearer '' @ token))]
      \<and> token \<noteq> []
      \<and> req_method r = ''post'' \<and> req_body r = Some (JSON_stringify P scr)" for scr
    by (simp add: trace_postContent request_options_headers request_options_method
          request_options_body)
  show "\<forall>r \<in> set (fst (postScrFile P local url topic f token)).
      req_headers r = [(''accept'', ''application/vnd.oscp+json; version=1.0;''),
                       (''content-type'', ''application/json''),
                       (''authorization'', normalize_value (''Bearer '' @ token))]
      \<and> token \<noteq> []
      \<and> req_method r = ''post''
      \<and> (\<exists>text v. file_content f = Inr text \<and> JSON_parse P text = Inr v
            \<and> req_body r = Some (JSON_stringify P (zod_output scrNoIdSchema v)))"
  proof
    fix r assume "r \<in> set (fst (postScrFile P local url topic f token))"
    then obtain t v where tv: "file_content f = Inr t" "JSON_parse P t = Inr v"
      and r: "r \<in> set (fst (postContent P local url topic (zod_output scrNoIdSchema v) token))"
      using postScrFile_trace by blast
    from post r have "req_headers r = [(''accept'', ''application/vnd.oscp+json; version=1.0;''),
                       (''content-type'', ''application/json''),
                       (''authorization'', normalize_value (''Bearer '' @ token))]
      \<and> token \<noteq> []
      \<and> req_method r = ''post''
      \<and> req_body r = Some (JSON_stringify P (zod_output scrNoIdSchema v))"
      by blast
    with tv show "req_headers r = [(''accept'', ''application/vnd.oscp+json; version=1.0;''),
                       (''content-type'', ''application/json''),
                       (''authorization'', normalize_value (''Bearer '' @ token))]
      \<and> token \<noteq> []
      \<and> req_method r = ''post''
      \<and> (\<exists>text v. file_content f = Inr text \<and> JSON_parse P text = Inr v
            \<and> req_body r = Some (JSON_stringify P (zod_output scrNoIdSchema v)))"
      by blast
  qed
  show "\<forall>r \<in> set (fst (putContent P local url topic scr id' token)).
      req_headers r = [(''accept'', ''application/vnd.oscp+json; version=1.0;''),
                       (''content-type'', ''application/json''),
                       (''authorization'', normalize_value (''Bearer '' @ token))]
      \<and> token \<noteq> []
      \<and> req_method r = ''put'' \<and> req_body r = Some (JSON_stringify P scr)"
    by (simp add: trace_putContent request_options_headers request_options_method
          request_options_body)
  show "\<forall>r \<in> set (fst (deleteWithId P local url topic id' token)).
      req_headers r = [(''accept'', ''application/vnd.oscp+json; version=1.0;''),
                       (''content-type'', ''application/json'')]
                      @ (if token = [] then []
                         else [(''authorization'', normalize_value (''Bearer '' @ token))])
      \<and> req_method r = ''delete'' \<and> req_body r = None"
    by (simp add: trace_deleteWithId request_options_headers request_options_method
          request_options_body)
  show "token \<noteq> [] \<and> \<not> http_whitespace (last token) \<longrightarrow>
        normalize_value (''Bearer '' @ token) = ''Bearer '' @ token"
    using normalize_bearer by blast
qed

theorem request_construction_witness:
  "map req_headers (fst (getContentsAtLocation sample_platform False ''https://svc'' ''3d'' ''8928308280fffff'' None))
     = [[(''accept'', ''application/vnd.oscp+json; version=1.0;''), (''content-type'', ''application/json'')]]
   \<and> map req_headers (fst (getContentWithId sample_platform False ''https://svc'' ''3d'' ''a3683f12b334dea6''))
     = [[(''accept'', ''application/vnd.oscp+json; version=1.0;''), (''content-type'', ''application/json'')]]
   \<and> map req_headers (fst (searchContentsForTenant sample_platform False ''https://svc'' ''3d'' ''tok''))
     = [[(''accept'', ''application/vnd.oscp+json; version=1.0;''), (''content-type'', ''application/json''),
         (''authorization'', ''Bearer tok'')]]
   \<and> map req_headers (fst (deleteWithId sample_platform False ''https://svc'' ''3d'' ''a3683f12b334dea6'' []))
     = [[(''accept'', ''application/vnd.oscp+json; version=1.0;''), (''content-type'', ''application/json'')]]
   \<and> map req_body (fst (deleteWithId sample_platform False ''https://svc'' ''3d'' ''a3683f12b334dea6'' []))
     = [None]
   \<and> map req_headers (fst (deleteWithId sample_platform False ''https://svc'' ''3d'' ''a3683f12b334dea6'' ''tok ''))
     = [[(''accept'', ''application/vnd.oscp+json; version=1.0;''), (''content-type'', ''application/json''),
         (''authorization'', ''Bearer tok'')]]
   \<and> map req_headers (fst (postContent sample_platform False ''https://svc'' ''3d'' localResult ''tok''))
     = [[(''accept'', ''application/vnd.oscp+json; version=1.0;''), (''content-type'', ''application/json''),
         (''authorization'', ''Bearer tok'')]]
   \<and> map req_body (fst (postContent sample_platform False ''https://svc'' ''3d'' localResult ''tok''))
     = [Some localResult_text]
   \<and> fst (postScrFile sample_platform False ''https://svc'' ''3d''
             \<lparr> file_name = ''cat.json'', file_content = Inr localResult_text \<rparr> ''tok'')
     = [\<lparr> req_url = ''https://svc/scrs/3d'', req_method = ''post'',
          req_headers = [(''accept'', ''application/vnd.oscp+json; version=1.0;''),
                         (''content-type'', ''application/json''),
                         (''authorization'', ''Bearer tok'')],
          req_body = Some localResult_stripped_text \<rparr>]
   \<and> map req_body (fst (putContent sample_platform False ''https://svc'' ''3d'' localResult ''a3683f12b334dea6'' ''tok''))
     = [Some localResult_text]
   \<and> \<not> http_whitespace (last ''tok'')
   \<and> normalize_value (''Bearer '' @ ''tok'') = ''Bearer tok''"
proof -
  have ok: "zod_issues sample_is_url scrNoIdSchema [] localResult = []"
    using localResult_conforms zod_issues_scrSchema by blast
  have str: "sample_JSON_stringify localResult = localResult_text"
    "sample_JSON_stringify localResult_stripped = localResult_stripped_text"
    by (simp_all add: sample_JSON_stringify_def localResult_def localResult_stripped_def)
  have parse: "sample_JSON_parse localResult_text = Inr localResult"
    by (simp add: sample_JSON_parse_def localResult_text_def)
  have t1: "fst (getContentsAtLocation sample_platform False ''https://svc'' ''3d'' ''8928308280fffff'' None) \<noteq> []"
    by (simp add: trace_getContentsAtLocation)
  have t2: "fst (getContentWithId sample_platform False ''https://svc'' ''3d'' ''a3683f12b334dea6'') \<noteq> []"
    by (simp add: trace_getContentWithId)
  have t3: "fst (postContent sample_platform False ''https://svc'' ''3d'' localResult ''tok'')
      = [request_options ''https://svc/scrs/3d'' (Some ''post'') (Some localResult_text)
           [(''accept'', ''application/vnd.oscp+json; version=1.0;''),
            (''content-type'', ''application/json''), (''authorization'', ''Bearer tok'')]]"
    by (simp add: trace_postContent sample_platform_simps ok str bearer_tok)
  have t4: "fst (putContent sample_platform False ''https://svc'' ''3d'' localResult ''a3683f12b334dea6'' ''tok'')
      = [request_options ''https://svc/scrs/3d/a3683f12b334dea6'' (Some ''put'') (Some localResult_text)
           [(''accept'', ''application/vnd.oscp+json; version=1.0;''),
            (''content-type'', ''application/json''), (''authorization'', ''Bearer tok'')]]"
    by (simp add: trace_putContent sample_platform_simps localResult_conforms str bearer_tok)
  have t5: "fst (postScrFile sample_platform False ''https://svc'' ''3d''
             \<lparr> file_name = ''cat.json'', file_content = Inr localResult_text \<rparr> ''tok'')
      = [request_options ''https://svc/scrs/3d'' (Some ''post'') (Some localResult_stripped_text)
           [(''accept'', ''application/vnd.oscp+json; version=1.0;''),
            (''content-type'', ''application/json''), (''authorization'', ''Bearer tok'')]]"
    by (simp add: trace_postScrFile trace_postContent sample_platform_simps parse ok
          localResult_stripped localResult_stripped_conforms str bearer_tok)
  have t6: "fst (deleteWithId sample_platform False ''https://svc'' ''3d'' ''a3683f12b334dea6'' ''tok '')
      = [request_options ''https://svc/scrs/3d/a3683f12b334dea6'' (Some ''delete'') (Some [])
           [(''accept'', ''application/vnd.oscp+json; version=1.0;''),
            (''content-type'', ''application/json''), (''authorization'', ''Bearer tok'')]]"
    by (simp add: trace_deleteWithId bearer_tok)
  have ws: "\<not> http_whitespace (last ''tok'')"
    by (simp add: http_whitespace_def)
  show ?thesis
    using request_construction [where P = sample_platform and ?local = False and url = "''https://svc''"
            and topic = "''3d''" and ?h3Index = "''8928308280fffff''" and ?keywords = None
            and id' = "''a3683f12b334dea6''" and token = "''tok''" and scr = localResult
            and f = "\<lparr> file_name = ''cat.json'', file_content = Inr localResult_text \<rparr>"]
          request_construction [where P = sample_platform and ?local = False and url = "''https://svc''"
            and topic = "''3d''" and ?h3Index = "''8928308280fffff''" and ?keywords = None
            and id' = "''a3683f12b334dea6''" and token = "[]" and scr = localResult
            and f = "\<lparr> file_name = ''cat.json'', file_content = Inr localResult_text \<rparr>"]
          request_construction [where P = sample_platform and ?local = False and url = "''https://svc''"
            and topic = "''3d''" and ?h3Index = "''8928308280fffff''" and ?keywords = None
            and id' = "''a3683f12b334dea6''" and token = "''tok ''" and scr = localResult
            and f = "\<lparr> file_name = ''cat.json'', file_content = Inr localResult_text \<rparr>"]
    by (simp add: t3 t4 t5 t6 http_whitespace_def trace_getContentsAtLocation
          trace_getContentWithId trace_searchContentsForTenant trace_deleteWithId bearer_tok
          bearer_empty request_options_record)
qed

text \<open>
  C8. With \<^verbatim>\<open>local\<close> enabled, for all arguments, \<^verbatim>\<open>getContentsAtLocation\<close> returns the
  fixture \<^verbatim>\<open>localResults\<close>, a sequence of exactly two records with the top-level ids
  \<^verbatim>\<open>a3683f12b334dea6\<close> and \<^verbatim>\<open>d44a6818c119b51e\<close> in that order, and \<^verbatim>\<open>postContent\<close> returns
  exactly \<^verbatim>\<open>OK\<close>; neither issues a request.
\<close>

theorem offline_fixtures:
  "getContentsAtLocation P True url topic h3Index keywords = ([], Inr localResults)
   \<and> (case localResults of JArr rs \<Rightarrow> map (\<lambda>r. js_prop r ''id'') rs | _ \<Rightarrow> [])
       = [JStr ''a3683f12b334dea6'', JStr ''d44a6818c119b51e'']
   \<and> postContent P True url topic scr token = ([], Inr ''OK'')"
  by (simp add: getContentsAtLocation_def postContent_def localResults_def js_prop_def js_get_def)

text \<open>
  C9, as the claim states it: each failure of \<^verbatim>\<open>postScrFile\<close> would carry the file name.
  Two files with different names and the same text end in the same failure, for a text
  that does not parse and for a text that parses and violates the schema.
\<close>

theorem postScrFile_failure_without_file_name:
  "postScrFile sample_platform False ''https://svc'' ''3d''
       \<lparr> file_name = ''a.json'', file_content = Inr ''{'' \<rparr> ''tok''
     = ([], Inl (SyntaxError ''Unexpected end of JSON input''))
   \<and> postScrFile sample_platform False ''https://svc'' ''3d''
       \<lparr> file_name = ''b.json'', file_content = Inr ''{'' \<rparr> ''tok''
     = ([], Inl (SyntaxError ''Unexpected end of JSON input''))
   \<and> postScrFile sample_platform False ''https://svc'' ''3d''
       \<lparr> file_name = ''a.json'', file_content = Inr ''{}'' \<rparr> ''tok''
     = ([], Inl (ZodError [Invalid_type [Key ''type''], Invalid_type [Key ''content'']]))
   \<and> postScrFile sample_platform False ''https://svc'' ''3d''
       \<lparr> file_name = ''b.json'', file_content = Inr ''{}'' \<rparr> ''tok''
     = ([], Inl (ZodError [Invalid_type [Key ''type''], Invalid_type [Key ''content'']]))"
  by (simp add: postScrFile_def getFileContent_def sample_platform_def sample_JSON_parse_def localResult_text_def
        zod_parse_def scrNoIdSchema_def scrNoIdShape_def contentSchema_def js_get_def)

text \<open>
  C9, amended. For a file that can be read: a text that is not valid JSON ends in the
  \<^verbatim>\<open>SyntaxError\<close> of \<^verbatim>\<open>JSON.parse\<close>, a text that parses and does not conform to
  \<^verbatim>\<open>scrNoIdSchema\<close> ends in the \<^verbatim>\<open>ZodError\<close>, the two kinds are distinct, neither issues
  a request, and the outcome is that of the text alone: it does not change with the
  file name.
\<close>

theorem postScrFile_failures:
  "(file_content f = Inr text \<and> JSON_parse P text = Inl msg \<longrightarrow>
      postScrFile P local url topic f token = ([], Inl (SyntaxError msg)))
   \<and> (file_content f = Inr text \<and> JSON_parse P text = Inr v
        \<and> zod_issues (is_url P) scrNoIdSchema [] v \<noteq> [] \<longrightarrow>
      postScrFile P local url topic f token
        = ([], Inl (ZodError (zod_issues (is_url P) scrNoIdSchema [] v))))
   \<and> SyntaxError msg \<noteq> ZodError issues
   \<and> (file_content f = Inr text \<longrightarrow>
      postScrFile P local url topic (f\<lparr>file_name := n\<rparr>) token
        = postScrFile P local url topic f token)"
proof (intro conjI impI)
  assume "file_content f = Inr text \<and> JSON_parse P text = Inl msg"
  then show "postScrFile P local url topic f token = ([], Inl (SyntaxError msg))"
    by (simp add: postScrFile_def getFileContent_def)
next
  assume "file_content f = Inr text \<and> JSON_parse P text = Inr v
        \<and> zod_issues (is_url P) scrNoIdSchema [] v \<noteq> []"
  then show "postScrFile P local url topic f token
        = ([], Inl (ZodError (zod_issues (is_url P) scrNoIdSchema [] v)))"
    by (simp add: postScrFile_def getFileContent_def zod_parse_def split: list.splits)
next
  show "SyntaxError msg \<noteq> ZodError issues"
    by simp
next
  assume "file_content f = Inr text"
  then show "postScrFile P local url topic (f\<lparr>file_name := n\<rparr>) token
        = postScrFile P local url topic f token"
    by (simp add: postScrFile_def getFileContent_def)
qed

theorem postScrFile_failures_witness:
  "JSON_parse sample_platform ''{'' = Inl ''Unexpected end of JSON input''
   \<and> postScrFile sample_platform True ''https://svc'' ''3d''
       \<lparr> file_name = ''a.json'', file_content = Inr ''{'' \<rparr> ''tok''
     = ([], Inl (SyntaxError ''Unexpected end of JSON input''))
   \<and> JSON_parse sample_platform ''[]'' = Inr (JArr [])
   \<and> zod_issues (is_url sample_platform) scrNoIdSchema [] (JArr []) = [Invalid_type []]
   \<and> postScrFile sample_platform False ''https://svc'' ''3d''
       \<lparr> file_name = ''a.json'', file_content = Inr ''[]'' \<rparr> ''tok''
     = ([], Inl (ZodError [Invalid_type []]))
   \<and> postScrFile sample_platform False ''https://svc'' ''3d''
       \<lparr> file_name = ''renamed.json'', file_content = Inr ''[]'' \<rparr> ''tok''
     = postScrFile sample_platform False ''https://svc'' ''3d''
       \<lparr> file_name = ''a.json'', file_content = Inr ''[]'' \<rparr> ''tok''"
proof -
  have p1: "JSON_parse sample_platform ''{'' = Inl ''Unexpected end of JSON input''"
    by (simp add: sample_platform_def sample_JSON_parse_def localResult_text_def)
  have p2: "JSON_parse sample_platform ''[]'' = Inr (JArr [])"
    by (simp add: sample_platform_def sample_JSON_parse_def localResult_text_def)
  have z: "zod_issues (is_url sample_platform) scrNoIdSchema [] (JArr []) = [Invalid_type []]"
    by (simp add: scrNoIdSchema_def)
  show ?thesis
    using postScrFile_failures [where f = "\<lparr> file_name = ''a.json'', file_content = Inr ''{'' \<rparr>"
            and ?text = "''{''" and P = sample_platform and msg = "''Unexpected end of JSON input''"
            and ?local = True and url = "''https://svc''" and topic = "''3d''" and token = "''tok''"]
          postScrFile_failures [where f = "\<lparr> file_name = ''a.json'', file_content = Inr ''[]'' \<rparr>"
            and ?text = "''[]''" and P = sample_platform and v = "JArr []" and n = "''renamed.json''"
            and ?local = False and url = "''https://svc''" and topic = "''3d''" and token = "''tok''"]
    by (simp add: p1 p2 z)
qed

text \<open>
  C10. The deprecated alias \<^verbatim>\<open>getContentAtLocation\<close> returns, and fails, exactly as
  \<^verbatim>\<open>getContentsAtLocation\<close> does on the same arguments, in both states of \<^verbatim>\<open>local\<close> and
  also when keywords is left out.
\<close>

theorem alias_same:
  "getContentAtLocation P local url topic h3Index keywords
   = getContentsAtLocation P local url topic h3Index keywords"
  by (simp add: getContentAtLocation_def getContentsAtLocation_def Let_def split: option.splits)

end
